theory Spec2Isabelle
  imports Complex_Main "HOL-Library.AList"
begin

section \<open>Data model (types/financial.ts)\<close>

text \<open>
  A JavaScript number is an exact rational here: the rounding of IEEE doubles and the
  values \<open>NaN\<close> and \<open>Infinity\<close> of a figure are outside the model (a parse that
  fails is \<open>None\<close>, and the one division of the source has a result type of its own).
  A JavaScript string is a list of characters, one \<^typ>\<open>char\<close> per code unit, so the
  texts of the model are those whose code units are below 256. An object used as a
  dictionary is an association list in insertion order: \<^const>\<open>AList.update\<close>
  overwrites the value of a key that is there and appends a new key at the end, as
  property assignment does for ordinary property names. The keys here are file names, which
  the upload step admits only with the extension pdf, docx or xlsx: they are neither array
  indices nor \<^verbatim>\<open>__proto__\<close>.
\<close>

type_synonym number = rat

datatype status = success | partial | failed

record ExtractedFigure =
  category :: string
  year :: string
  val :: number
  label :: string
  documentName :: string
  location :: string
  confidence :: number

record DocumentAnalysis =
  fileName :: string
  extractedFigures :: "ExtractedFigure list"
  extractionStatus :: status
  errorMessage :: "string option"

text \<open>In \<open>values\<close> the entry \<open>None\<close> is the source's \<open>null\<close>.\<close>

record ComparisonResult =
  cr_year :: string
  cr_field :: string
  cr_values :: "(string \<times> number option) list"
  cr_consistent :: bool
  cr_category :: string

record Summary =
  totalComparisons :: nat
  consistentCount :: nat
  discrepancyCount :: nat
  keyDiscrepancies :: "string list"
  consistentSections :: "string list"

record CrossCheckReport =
  documentAnalyses :: "DocumentAnalysis list"
  comparisons :: "ComparisonResult list"
  summary :: Summary

section \<open>Cross-document comparator (CrossCheckReport.tsx, App.tsx)\<close>

text \<open>\<open>Set.prototype.add\<close>: a JavaScript \<open>Set\<close> iterates in insertion order.\<close>

definition set_add :: "'a \<Rightarrow> 'a list \<Rightarrow> 'a list" where
  "set_add x s = (if x \<in> set s then s else s @ [x])"

text \<open>\<open>new Set(xs)\<close>, and \<open>Array.from\<close> of it.\<close>

definition new_Set :: "'a list \<Rightarrow> 'a list" where
  "new_Set xs = foldl (\<lambda>s x. set_add x s) [] xs"

text \<open>The first loop: all labels and all years of all figures, each in order of first appearance.\<close>

definition collect_fields_years :: "DocumentAnalysis list \<Rightarrow> string list \<times> string list" where
  "collect_fields_years analyses =
     foldl (\<lambda>acc analysis.
              foldl (\<lambda>(allFields, allYears) figure.
                       (set_add (label figure) allFields, set_add (year figure) allYears))
                    acc (extractedFigures analysis))
           ([], []) analyses"

definition find_figure :: "DocumentAnalysis \<Rightarrow> string \<Rightarrow> string \<Rightarrow> ExtractedFigure option" where
  "find_figure analysis field yr =
     List.find (\<lambda>f. label f = field \<and> year f = yr) (extractedFigures analysis)"

text \<open>The inner \<open>analyses.forEach\<close>: it fills \<open>values\<close> and remembers the last category seen.\<close>

definition gather_step ::
  "string \<Rightarrow> string \<Rightarrow> (string \<times> number option) list \<times> string \<Rightarrow> DocumentAnalysis
     \<Rightarrow> (string \<times> number option) list \<times> string" where
  "gather_step field yr acc analysis =
     (let figure = find_figure analysis field yr
      in (AList.update (fileName analysis) (map_option val figure) (fst acc),
          (case figure of Some f \<Rightarrow> category f | None \<Rightarrow> snd acc)))"

definition gather :: "DocumentAnalysis list \<Rightarrow> string \<Rightarrow> string
     \<Rightarrow> (string \<times> number option) list \<times> string" where
  "gather analyses field yr = foldl (gather_step field yr) ([], ''Income Statement'') analyses"

definition nonNullValues :: "(string \<times> number option) list \<Rightarrow> number option list" where
  "nonNullValues vs = filter (\<lambda>v. v \<noteq> None) (map snd vs)"

text \<open>The body of the two nested loops for one (field, year): a comparison or nothing.\<close>

definition compare_pair :: "DocumentAnalysis list \<Rightarrow> string \<Rightarrow> string \<Rightarrow> ComparisonResult option" where
  "compare_pair analyses field yr =
     (let (vs, cat) = gather analyses field yr;
          nn = nonNullValues vs
      in if 2 \<le> length nn
         then Some \<lparr> cr_year = yr, cr_field = field, cr_values = vs,
                     cr_consistent = (length (new_Set nn) = 1), cr_category = cat \<rparr>
         else None)"

definition generateComparisons :: "DocumentAnalysis list \<Rightarrow> ComparisonResult list" where
  "generateComparisons analyses =
     (let (allFields, allYears) = collect_fields_years analyses
      in concat (map (\<lambda>field. List.map_filter (\<lambda>yr. compare_pair analyses field yr) allYears)
                     allFields))"

fun join :: "string \<Rightarrow> string list \<Rightarrow> string" where
  "join sep [] = []"
| "join sep [x] = x"
| "join sep (x # y # ys) = x @ sep @ join sep (y # ys)"

text \<open>
  \<open>toLocaleString\<close> depends on the locale of the host; it is the parameter
  \<open>fmt\<close> of the report.
\<close>

definition docValues :: "(number \<Rightarrow> string) \<Rightarrow> ComparisonResult \<Rightarrow> string" where
  "docValues fmt c =
     join '', '' (List.map_filter
       (\<lambda>(doc, v). case v of None \<Rightarrow> None | Some x \<Rightarrow> Some (doc @ '': $'' @ fmt x))
       (cr_values c))"

definition keyDiscrepancy :: "(number \<Rightarrow> string) \<Rightarrow> ComparisonResult \<Rightarrow> string" where
  "keyDiscrepancy fmt c =
     cr_field c @ '' for '' @ cr_year c @ '' differs ('' @ docValues fmt c @ '')''"

definition crossCheckReport :: "(number \<Rightarrow> string) \<Rightarrow> DocumentAnalysis list \<Rightarrow> CrossCheckReport" where
  "crossCheckReport fmt analyses =
     (let cs = generateComparisons analyses;
          total = length cs;
          cons = length (filter cr_consistent cs)
      in \<lparr> documentAnalyses = analyses,
           comparisons = cs,
           summary = \<lparr> totalComparisons = total,
                       consistentCount = cons,
                       discrepancyCount = total - cons,
                       keyDiscrepancies =
                         map (keyDiscrepancy fmt) (take 5 (filter (\<lambda>c. \<not> cr_consistent c) cs)),
                       consistentSections =
                         new_Set (map cr_category (filter cr_consistent cs)) \<rparr> \<rparr>)"

section \<open>Strings\<close>

definition is_digit :: "char \<Rightarrow> bool" where
  "is_digit c \<longleftrightarrow> c \<in> set ''0123456789''"

definition is_word :: "char \<Rightarrow> bool" where
  "is_word c \<longleftrightarrow>
     c \<in> set ''abcdefghijklmnopqrstuvwxyzABCDEFGHIJKLMNOPQRSTUVWXYZ0123456789_''"

text \<open>
  White space and line terminators of ECMAScript among the code units below 256: tab, line
  feed, vertical tab, form feed, carriage return, space and no-break space.
\<close>

definition is_space :: "char \<Rightarrow> bool" where
  "is_space c \<longleftrightarrow> c \<in> {CHR 0x09, CHR 0x0A, CHR 0x0B, CHR 0x0C, CHR 0x0D, CHR '' '', CHR 0xA0}"

definition is_line_terminator :: "char \<Rightarrow> bool" where
  "is_line_terminator c \<longleftrightarrow> c \<in> {CHR 0x0A, CHR 0x0D}"

text \<open>
  The canonical form of a character under the flag \<open>i\<close>. Only the letters a to z
  share theirs with another character that a literal of the patterns can be, so the other
  characters stand for themselves.
\<close>

definition toUpper :: "char \<Rightarrow> char" where
  "toUpper c = (case map_of (zip ''abcdefghijklmnopqrstuvwxyz'' ''ABCDEFGHIJKLMNOPQRSTUVWXYZ'') c of
                  Some u \<Rightarrow> u | None \<Rightarrow> c)"

text \<open>
  \<open>String.prototype.toLowerCase\<close>, character by character: the letters A to Z and the
  capital letters of Latin-1 (code units 192 to 222 without the multiplication sign 215).
\<close>

definition toLower :: "char \<Rightarrow> char" where
  "toLower c =
     (let n = of_char c :: nat
      in if (65 \<le> n \<and> n \<le> 90) \<or> (192 \<le> n \<and> n \<le> 222 \<and> n \<noteq> 215)
         then char_of (n + 32) else c)"

definition digit_val :: "char \<Rightarrow> nat" where
  "digit_val c = of_char c - 48"


text \<open>\<open>Number.prototype.toString\<close> of a non-negative integer.\<close>

function string_of_nat :: "nat \<Rightarrow> string" where
  "string_of_nat n =
     (if n < 10 then [''0123456789'' ! n]
      else string_of_nat (n div 10) @ [''0123456789'' ! (n mod 10)])"
  by pat_completeness auto
termination
  by (relation "measure id") auto

declare string_of_nat.simps [simp del]

section \<open>Regular expressions\<close>

text \<open>
  The patterns of the source are sequences of single-character classes with the
  quantifiers \<open>?\<close>, \<open>*\<close> and \<open>+\<close>, one optional group of classes and one capture
  group that runs to the end of the pattern. Every pattern begins with a literal
  character, so a match is never empty.
\<close>

datatype cclass =
    Lit char
  | AnyChar
  | Digit
  | DigitComma
  | ColonSpace
  | ColonSpaceWord

text \<open>
  All patterns that contain letters carry the flag \<open>i\<close>: a literal matches a character with
  the same canonical (upper-case) form; only the letters a to z have another form.
\<close>

fun in_class :: "cclass \<Rightarrow> char \<Rightarrow> bool" where
  "in_class (Lit l) c \<longleftrightarrow> toUpper c = toUpper l"
| "in_class AnyChar c \<longleftrightarrow> \<not> is_line_terminator c"
| "in_class Digit c \<longleftrightarrow> is_digit c"
| "in_class DigitComma c \<longleftrightarrow> is_digit c \<or> c = CHR '',''"
| "in_class ColonSpace c \<longleftrightarrow> c = CHR '':'' \<or> is_space c"
| "in_class ColonSpaceWord c \<longleftrightarrow> c = CHR '':'' \<or> is_space c \<or> is_word c"

datatype atom =
    One cclass
  | Opt cclass
  | Star cclass
  | Plus cclass
  | OptSeq "cclass list"
  | Open

datatype pattern = Pattern cclass "atom list"

text \<open>
  A match of a list of atoms at the head of a string: the number of characters consumed
  and the offset at which the capture group opens. The alternatives of a quantifier are
  tried greedily, the longest first, as the backtracking matcher of ECMAScript does.
\<close>

fun shift :: "nat \<Rightarrow> (nat \<times> nat) option \<Rightarrow> (nat \<times> nat) option" where
  "shift k None = None"
| "shift k (Some (n, g)) = Some (k + n, k + g)"

fun first_some :: "'a option list \<Rightarrow> 'a option" where
  "first_some [] = None"
| "first_some (None # rs) = first_some rs"
| "first_some (Some r # rs) = Some r"

definition run :: "cclass \<Rightarrow> string \<Rightarrow> nat" where
  "run c s = length (takeWhile (in_class c) s)"

fun prefix_in :: "cclass list \<Rightarrow> string \<Rightarrow> bool" where
  "prefix_in [] s \<longleftrightarrow> True"
| "prefix_in (c # cs) [] \<longleftrightarrow> False"
| "prefix_in (c # cs) (x # xs) \<longleftrightarrow> in_class c x \<and> prefix_in cs xs"

fun match_here :: "atom list \<Rightarrow> string \<Rightarrow> (nat \<times> nat) option" where
  "match_here [] s = Some (0, 0)"
| "match_here (One c # as) s =
     (case s of [] \<Rightarrow> None
      | x # xs \<Rightarrow> if in_class c x then shift 1 (match_here as xs) else None)"
| "match_here (Opt c # as) s =
     first_some (map (\<lambda>j. shift j (match_here as (drop j s)))
                     (rev [0 ..< Suc (min 1 (run c s))]))"
| "match_here (Star c # as) s =
     first_some (map (\<lambda>j. shift j (match_here as (drop j s)))
                     (rev [0 ..< Suc (run c s)]))"
| "match_here (Plus c # as) s =
     first_some (map (\<lambda>j. shift j (match_here as (drop j s)))
                     (rev [1 ..< Suc (run c s)]))"
| "match_here (OptSeq cs # as) s =
     first_some (map (\<lambda>j. shift j (match_here as (drop j s)))
                     (if prefix_in cs s then [length cs, 0] else [0]))"
| "match_here (Open # as) s =
     (case match_here as s of None \<Rightarrow> None | Some (n, g) \<Rightarrow> Some (n, 0))"

text \<open>A match object: \<open>index\<close>, the matched text \<open>match[0]\<close> and the group \<open>match[1]\<close>.\<close>

record rmatch =
  m_index :: nat
  m_text :: string
  m_group :: string

definition match_at :: "pattern \<Rightarrow> string \<Rightarrow> (nat \<times> nat) option" where
  "match_at p s =
     (case p of Pattern c as \<Rightarrow>
        (case s of [] \<Rightarrow> None
         | x # xs \<Rightarrow> if in_class c x then shift 1 (match_here as xs) else None))"

text \<open>The leftmost match in \<open>s\<close>, whose first character has index \<open>off\<close> in the text.\<close>

fun search :: "pattern \<Rightarrow> string \<Rightarrow> nat \<Rightarrow> (rmatch \<times> string) option" where
  "search p [] off = None"
| "search p (x # xs) off =
     (case match_at p (x # xs) of
        Some (n, g) \<Rightarrow>
          Some (\<lparr> m_index = off, m_text = take n (x # xs), m_group = take (n - g) (drop g (x # xs)) \<rparr>,
                drop n (x # xs))
      | None \<Rightarrow> search p xs (Suc off))"


lemma search_shorter: "search p s off = Some (m, rest) \<Longrightarrow> length rest < length s"
proof (induction s arbitrary: off)
  case Nil
  then show ?case by simp
next
  case (Cons x xs)
  show ?case
  proof (cases "match_at p (x # xs)")
    case None
    with Cons.prems have "search p xs (Suc off) = Some (m, rest)" by simp
    from Cons.IH [OF this] show ?thesis by simp
  next
    case (Some r)
    obtain n g where r: "r = (n, g)" by (cases r)
    from Some r have "0 < n"
      by (cases p) (auto simp: match_at_def split: if_splits elim!: shift.elims)
    with Cons.prems Some r show ?thesis by auto
  qed
qed

text \<open>
  The loop \<open>while ((match = pattern.exec(text)) !== null)\<close> of a pattern with the flag
  \<open>g\<close>, and \<open>text.match\<close> of such a pattern: every search starts where the last match
  ended (\<open>lastIndex\<close>).
\<close>

function exec_all :: "pattern \<Rightarrow> string \<Rightarrow> nat \<Rightarrow> rmatch list" where
  "exec_all p s lastIndex =
     (case search p s lastIndex of
        None \<Rightarrow> []
      | Some (m, rest) \<Rightarrow> m # exec_all p rest (m_index m + length (m_text m)))"
  by pat_completeness auto
termination
  by (relation "measure (\<lambda>(p, s, lastIndex). length s)") (auto dest: search_shorter)

declare exec_all.simps [simp del]


section \<open>Helpers of the extractors\<close>

definition lit :: "string \<Rightarrow> atom list" where
  "lit s = map (\<lambda>c. One (Lit c)) s"

text \<open>\<open>/20\d{2}/\<close>\<close>

definition year_pattern :: pattern where
  "year_pattern = Pattern (Lit CHR ''2'') [One (Lit CHR ''0''), One Digit, One Digit]"

text \<open>\<open>String.prototype.indexOf(pat, from)\<close>; \<open>None\<close> is the source's \<open>-1\<close>.\<close>

fun find_sub :: "string \<Rightarrow> string \<Rightarrow> nat \<Rightarrow> nat option" where
  "find_sub pat [] i = (if pat = [] then Some i else None)"
| "find_sub pat (x # xs) i =
     (if take (length pat) (x # xs) = pat then Some i else find_sub pat xs (Suc i))"

definition indexOf :: "string \<Rightarrow> string \<Rightarrow> nat \<Rightarrow> nat option" where
  "indexOf text pat from = find_sub pat (drop from text) (min from (length text))"

definition trim :: "string \<Rightarrow> string" where
  "trim s = rev (dropWhile is_space (rev (dropWhile is_space s)))"

text \<open>\<open>s.split('.').pop()\<close>: what follows the last dot, or all of \<open>s\<close> without a dot.\<close>

definition after_last_dot :: "string \<Rightarrow> string" where
  "after_last_dot s = rev (takeWhile (\<lambda>c. c \<noteq> CHR ''.'') (rev s))"

definition extension :: "string \<Rightarrow> string" where
  "extension fname = after_last_dot (map toLower fname)"

text \<open>
  \<open>parseFloat\<close> on the strings the extractors pass to it, which consist of digits
  with at most one dot: the longest prefix \<open>digits [. digits]\<close> is read; without any
  digit the result is \<open>NaN\<close>, here \<open>None\<close>. The result is the exact decimal
  value, where the source has the nearest double: the two agree in value on whole numbers
  below \<open>2^53\<close>, the source rounds beyond and gives \<open>Infinity\<close> from about
  \<open>1.8e308\<close> on, which the model does not.
\<close>

definition digits_val :: "string \<Rightarrow> number" where
  "digits_val ds = foldl (\<lambda>n c. 10 * n + of_nat (digit_val c)) 0 ds"

definition parseFloat :: "string \<Rightarrow> number option" where
  "parseFloat s =
     (let ip = takeWhile is_digit s;
          r = dropWhile is_digit s;
          fp = (case r of [] \<Rightarrow> [] | c # r' \<Rightarrow> if c = CHR ''.'' then takeWhile is_digit r' else [])
      in if ip = [] \<and> fp = [] then None
         else Some (digits_val ip + digits_val fp / 10 ^ length fp))"

text \<open>\<open>s.replace(/,/g, '')\<close>\<close>

definition strip_commas :: "string \<Rightarrow> string" where
  "strip_commas s = filter (\<lambda>c. c \<noteq> CHR '','') s"

section \<open>Figure extractor of the analysis engine (AnalysisEngine.tsx)\<close>

text \<open>\<open>[:\s]+\$?([\d,]+(?:\.\d{2})?)\<close>, the tail of every pattern of the engine.\<close>

definition amount :: "atom list" where
  "amount = [Plus ColonSpace, Opt (Lit CHR ''$''), Open, Plus DigitComma,
             OptSeq [Lit CHR ''.'', Digit, Digit]]"

text \<open>A pattern that is a literal phrase followed by \<open>tail\<close>.\<close>

definition phrase :: "char \<Rightarrow> string \<Rightarrow> atom list \<Rightarrow> pattern" where
  "phrase c cs tail = Pattern (Lit c) (lit cs @ tail)"

text \<open>\<open>shareholders.? equity\<close> and \<open>stockholders.? equity\<close>\<close>

definition holders_equity :: "char \<Rightarrow> string \<Rightarrow> pattern" where
  "holders_equity c cs = Pattern (Lit c) (lit cs @ [Opt AnyChar] @ lit '' equity'' @ amount)"

definition patterns :: "(string \<times> string \<times> pattern list) list" where
  "patterns =
    [(''Income Statement'', ''Revenue'',
        [phrase CHR ''r'' ''evenue'' amount, phrase CHR ''s'' ''ales'' amount,
         phrase CHR ''t'' ''otal revenue'' amount]),
     (''Income Statement'', ''EBITDA'',
        [phrase CHR ''e'' ''bitda'' amount, phrase CHR ''e'' ''arnings before'' amount]),
     (''Income Statement'', ''Net Income'',
        [phrase CHR ''n'' ''et income'' amount, phrase CHR ''n'' ''et profit'' amount,
         phrase CHR ''p'' ''rofit after tax'' amount]),
     (''Balance Sheet'', ''Total Assets'',
        [phrase CHR ''t'' ''otal assets'' amount, phrase CHR ''a'' ''ssets'' amount]),
     (''Balance Sheet'', ''Total Liabilities'',
        [phrase CHR ''t'' ''otal liabilities'' amount, phrase CHR ''l'' ''iabilities'' amount]),
     (''Balance Sheet'', ''Equity'',
        [phrase CHR ''e'' ''quity'' amount, holders_equity CHR ''s'' ''hareholders'',
         holders_equity CHR ''s'' ''tockholders'']),
     (''Cash Flow Statement'', ''Operating Cash Flow'',
        [phrase CHR ''o'' ''perating cash flow'' amount,
         phrase CHR ''c'' ''ash from operations'' amount]),
     (''Cash Flow Statement'', ''Investing Cash Flow'',
        [phrase CHR ''i'' ''nvesting cash flow'' amount,
         phrase CHR ''c'' ''ash from investing'' amount]),
     (''Cash Flow Statement'', ''Financing Cash Flow'',
        [phrase CHR ''f'' ''inancing cash flow'' amount,
         phrase CHR ''c'' ''ash from financing'' amount]),
     (''Cash Flow Statement'', ''Net Change in Cash'',
        [phrase CHR ''n'' ''et change in cash'' amount, phrase CHR ''n'' ''et cash flow'' amount])]"

text \<open>
  The candidate years, in order of first appearance; without any, the current year and the
  one before. The current year comes from the clock of the host: it is a parameter (a
  positive number).
\<close>

definition year_tokens :: "string \<Rightarrow> string list" where
  "year_tokens text = new_Set (map m_text (exec_all year_pattern text 0))"

definition found_years :: "nat \<Rightarrow> string \<Rightarrow> string list" where
  "found_years currentYear text =
     (let foundYears = year_tokens text
      in if foundYears = []
         then set_add (string_of_nat (currentYear - 1)) (set_add (string_of_nat currentYear) [])
         else foundYears)"

text \<open>
  One round of \<open>foundYears.forEach\<close>: the running closest year and its distance, where
  \<open>None\<close> is the initial \<open>Infinity\<close>.
\<close>

definition year_step :: "string \<Rightarrow> nat \<Rightarrow> string \<times> nat option \<Rightarrow> string \<Rightarrow> string \<times> nat option" where
  "year_step text matchIndex acc yr =
     (case indexOf text yr (matchIndex - 200) of
        None \<Rightarrow> acc
      | Some yearIndex \<Rightarrow>
          (let distance = (if matchIndex \<le> yearIndex then yearIndex - matchIndex
                           else matchIndex - yearIndex)
           in if (case snd acc of None \<Rightarrow> True | Some closestDistance \<Rightarrow> distance < closestDistance)
                 \<and> distance < 300
              then (yr, Some distance) else acc))"

definition closest_year :: "string \<Rightarrow> string list \<Rightarrow> nat \<Rightarrow> string" where
  "closest_year text foundYears matchIndex =
     fst (foldl (year_step text matchIndex) (hd foundYears, None) foundYears)"

definition location_of :: "string \<Rightarrow> nat \<Rightarrow> string" where
  "location_of fname matchIndex =
     (let ext = extension fname
      in if ext = ''pdf'' then ''PDF page '' @ string_of_nat (matchIndex div 2000 + 1)
         else if ext = ''xlsx'' then ''Excel worksheet''
         else if ext = ''docx'' then ''Word document''
         else ''Document content'')"

text \<open>The body of the \<open>while\<close> loop: the figure pushed for one match, if any.\<close>

definition figure_of_match ::
  "string \<Rightarrow> string \<Rightarrow> string list \<Rightarrow> string \<Rightarrow> string \<Rightarrow> rmatch \<Rightarrow> ExtractedFigure option" where
  "figure_of_match text fname foundYears cat field m =
     (case parseFloat (strip_commas (m_group m)) of
        None \<Rightarrow> None
      | Some v \<Rightarrow>
          if 0 < v
          then Some \<lparr> category = cat,
                      year = closest_year text foundYears (m_index m),
                      val = v,
                      label = field,
                      documentName = fname,
                      location = location_of fname (m_index m),
                      confidence = 85 / 100 \<rparr>
          else None)"

definition extractFinancialFigures :: "nat \<Rightarrow> string \<Rightarrow> string \<Rightarrow> ExtractedFigure list" where
  "extractFinancialFigures currentYear text fname =
     (let foundYears = found_years currentYear text
      in concat (map (\<lambda>(cat, field, fieldPatterns).
           concat (map (\<lambda>p. List.map_filter (figure_of_match text fname foundYears cat field)
                                (exec_all p text 0))
                       fieldPatterns))
           patterns))"





section \<open>Document analysis of the engine (AnalysisEngine.tsx, analyzeDocument)\<close>

record File =
  file_name :: string
  file_size :: nat
  file_type :: string

text \<open>
  The collaborators are functions that either raise (\<open>Inl\<close>, with the error) or return
  (\<open>Inr\<close>): the upload returns the public URL, the extractions return the text.
\<close>

record services =
  storage_upload :: "File \<Rightarrow> string \<Rightarrow> string + string"
  extractFromUrl :: "string \<Rightarrow> string + string"
  extractFromBlob :: "File \<Rightarrow> string + string"

text \<open>What the run reads from its host: the clock, and two functions of the standard library.\<close>

record host =
  now :: nat
  currentYear :: nat
  isoNow :: string
  encodeURIComponent :: "string \<Rightarrow> string"
  toLocaleString :: "number \<Rightarrow> string"

text \<open>The calls made to the collaborators, in order.\<close>

datatype call = Upload string | ExtractFromUrl string | ExtractFromBlob string

definition validate :: "File \<Rightarrow> string option" where
  "validate file =
     (if file_size file = 0
      then Some (''Invalid file: '' @ file_name file @ '' - file is empty or corrupted'')
      else if 50 * 1024 * 1024 < file_size file
      then Some (''File too large: '' @ file_name file @ '' - maximum size is 50MB'')
      else if extension (file_name file) \<notin> set [''pdf'', ''docx'', ''xlsx'']
      then Some (''Unsupported file type: '' @ extension (file_name file)
                 @ '' - only PDF, DOCX, and XLSX files are supported'')
      else None)"

definition both_failed_message :: "File \<Rightarrow> string" where
  "both_failed_message file =
     ''Unable to extract content from '' @ file_name file
     @ ''. The file may be corrupted, password-protected, or contain only images. ''
     @ ''Please ensure the file contains readable text content.''"

definition no_text_message :: "File \<Rightarrow> string" where
  "no_text_message file =
     ''No readable text content found in '' @ file_name file
     @ ''. The document may be empty, corrupted, or contain only images.''"

text \<open>The inner \<open>catch\<close>: extraction from the file itself; if it raises too, a new error.\<close>

definition blob_fallback :: "services \<Rightarrow> File \<Rightarrow> call list \<Rightarrow> (string + string) \<times> call list" where
  "blob_fallback sv file calls =
     (case extractFromBlob sv file of
        Inr txt \<Rightarrow> (Inr txt, calls @ [ExtractFromBlob (file_name file)])
      | Inl blobError \<Rightarrow> (Inl (both_failed_message file), calls @ [ExtractFromBlob (file_name file)]))"

text \<open>The inner \<open>try\<close>: upload, then extraction by URL; any raise leads to the fallback.\<close>

definition upload_path :: "host \<Rightarrow> File \<Rightarrow> string" where
  "upload_path h file =
     ''analysis/'' @ string_of_nat (now h) @ ''-'' @ encodeURIComponent h (file_name file)"

definition extract_text :: "host \<Rightarrow> services \<Rightarrow> File \<Rightarrow> (string + string) \<times> call list" where
  "extract_text h sv file =
     (let uploadPath = upload_path h file
      in case storage_upload sv file uploadPath of
           Inl urlError \<Rightarrow> blob_fallback sv file [Upload uploadPath]
         | Inr publicUrl \<Rightarrow>
             (case extractFromUrl sv publicUrl of
                Inl urlError \<Rightarrow> blob_fallback sv file [Upload uploadPath, ExtractFromUrl publicUrl]
              | Inr txt \<Rightarrow> (Inr txt, [Upload uploadPath, ExtractFromUrl publicUrl])))"

text \<open>The outer \<open>try\<close> block: the figures, or the message of the error thrown.\<close>

definition analyze_body :: "host \<Rightarrow> services \<Rightarrow> File \<Rightarrow> (string + ExtractedFigure list) \<times> call list" where
  "analyze_body h sv file =
     (case validate file of
        Some msg \<Rightarrow> (Inl msg, [])
      | None \<Rightarrow>
          (case extract_text h sv file of
             (Inl msg, calls) \<Rightarrow> (Inl msg, calls)
           | (Inr extractedText, calls) \<Rightarrow>
               if trim extractedText = [] then (Inl (no_text_message file), calls)
               else (Inr (extractFinancialFigures (currentYear h) extractedText (file_name file)),
                     calls)))"

definition no_figures_message :: string where
  "no_figures_message =
     ''No financial figures found in document. Please ensure the document contains ''
     @ ''financial data with clear labels and values.''"

definition analyzeDocument :: "host \<Rightarrow> services \<Rightarrow> File \<Rightarrow> DocumentAnalysis \<times> call list" where
  "analyzeDocument h sv file =
     (case analyze_body h sv file of
        (Inr figures, calls) \<Rightarrow>
          (\<lparr> fileName = file_name file,
             extractedFigures = figures,
             extractionStatus = (if 0 < length figures then success else partial),
             errorMessage = (if length figures = 0 then Some no_figures_message else None) \<rparr>,
           calls)
      | (Inl msg, calls) \<Rightarrow>
          (\<lparr> fileName = file_name file,
             extractedFigures = [],
             extractionStatus = failed,
             errorMessage = Some msg \<rparr>,
           calls))"

text \<open>\<open>startAnalysis\<close>: the files one after the other.\<close>

definition startAnalysis :: "host \<Rightarrow> services \<Rightarrow> File list \<Rightarrow> DocumentAnalysis list" where
  "startAnalysis h sv files = map (\<lambda>file. fst (analyzeDocument h sv file)) files"

section \<open>The dashboard variant (AnalysisDashboard: extractor, aggregator, comparator)\<close>

record DashFigure =
  df_category :: string
  df_value :: number
  df_year :: string
  df_documentName :: string
  df_location :: string
  df_confidence :: number

text \<open>\<open>[:\s]+\$?([\d,]+)\<close> and \<open>[:\s\w]*\$?([\d,]+)\<close>\<close>

definition dash_amount :: "atom list" where
  "dash_amount = [Plus ColonSpace, Opt (Lit CHR ''$''), Open, Plus DigitComma]"

definition earnings_amount :: "atom list" where
  "earnings_amount = [Star ColonSpaceWord, Opt (Lit CHR ''$''), Open, Plus DigitComma]"

definition financialPatterns :: "(string \<times> pattern list) list" where
  "financialPatterns =
    [(''Revenue'',
        [phrase CHR ''r'' ''evenue'' dash_amount, phrase CHR ''s'' ''ales'' dash_amount,
         phrase CHR ''t'' ''otal revenue'' dash_amount]),
     (''EBITDA'',
        [phrase CHR ''e'' ''bitda'' dash_amount,
         phrase CHR ''e'' ''arnings before'' earnings_amount]),
     (''Net Income'',
        [phrase CHR ''n'' ''et income'' dash_amount, phrase CHR ''n'' ''et profit'' dash_amount,
         phrase CHR ''p'' ''rofit'' dash_amount]),
     (''Total Assets'',
        [phrase CHR ''t'' ''otal assets'' dash_amount, phrase CHR ''a'' ''ssets'' dash_amount]),
     (''Total Liabilities'',
        [phrase CHR ''t'' ''otal liabilities'' dash_amount,
         phrase CHR ''l'' ''iabilities'' dash_amount]),
     (''Cash Flow'',
        [phrase CHR ''c'' ''ash flow'' dash_amount,
         phrase CHR ''o'' ''perating cash flow'' dash_amount])]"

text \<open>\<open>Array.prototype.sort\<close> without a comparator orders strings by their code units.\<close>

fun str_less :: "string \<Rightarrow> string \<Rightarrow> bool" where
  "str_less [] [] \<longleftrightarrow> False"
| "str_less [] (y # ys) \<longleftrightarrow> True"
| "str_less (x # xs) [] \<longleftrightarrow> False"
| "str_less (x # xs) (y # ys) \<longleftrightarrow>
     (of_char x :: nat) < of_char y \<or> (x = y \<and> str_less xs ys)"

fun insert_sorted :: "string \<Rightarrow> string list \<Rightarrow> string list" where
  "insert_sorted x [] = [x]"
| "insert_sorted x (y # ys) = (if str_less x y then x # y # ys else y # insert_sorted x ys)"

definition sort_strings :: "string list \<Rightarrow> string list" where
  "sort_strings xs = foldr insert_sorted xs []"

text \<open>
  \<open>String.prototype.substring\<close> with any integer arguments: both are clamped to the
  string and swapped when out of order. \<open>indexOf\<close> as an integer, \<open>-1\<close> when absent.
\<close>

definition substring_int :: "string \<Rightarrow> int \<Rightarrow> int \<Rightarrow> string" where
  "substring_int text a b =
     (let l = int (length text);
          a' = max 0 (min a l);
          b' = max 0 (min b l)
      in take (nat (max a' b' - min a' b')) (drop (nat (min a' b')) text))"

definition indexOf_int :: "string \<Rightarrow> string \<Rightarrow> int" where
  "indexOf_int text pat = (case indexOf text pat 0 of None \<Rightarrow> - 1 | Some i \<Rightarrow> int i)"

text \<open>\<open>text.match(pattern)\<close> of a pattern without the flag \<open>g\<close>: the leftmost match.\<close>

definition first_match :: "pattern \<Rightarrow> string \<Rightarrow> rmatch option" where
  "first_match p text = map_option fst (search p text 0)"

text \<open>The body of \<open>patterns.forEach\<close>: the figure pushed for one pattern, if any.\<close>

definition dash_figure ::
  "string \<Rightarrow> string \<Rightarrow> string list \<Rightarrow> string \<Rightarrow> pattern \<Rightarrow> DashFigure option" where
  "dash_figure text fname years cat p =
     (case first_match p text of
        None \<Rightarrow> None
      | Some matches \<Rightarrow>
          if m_group matches = [] then None
          else
            (case parseFloat (strip_commas (m_group matches)) of
               None \<Rightarrow> None
             | Some v \<Rightarrow>
                 (let matchIndex = indexOf_int text (m_text matches);
                      contextBefore = substring_int text (max 0 (matchIndex - 100)) matchIndex;
                      contextAfter = substring_int text matchIndex
                                       (min (int (length text)) (matchIndex + 100));
                      context = contextBefore @ m_text matches @ contextAfter;
                      yr = (case first_match year_pattern context of
                              Some yearInContext \<Rightarrow> m_text yearInContext
                            | None \<Rightarrow> (case years of y # _ \<Rightarrow> y | [] \<Rightarrow> ''2024''))
                  in Some \<lparr> df_category = cat,
                            df_value = v,
                            df_year = yr,
                            df_documentName = fname,
                            df_location = ''Found in document text'',
                            df_confidence = 9 / 10 \<rparr>)))"

definition dash_extractFinancialFigures :: "string \<Rightarrow> string \<Rightarrow> DashFigure list" where
  "dash_extractFinancialFigures text fname =
     (let yearMatches = map m_text (exec_all year_pattern text 0);
          years = rev (sort_strings (new_Set yearMatches))
      in concat (map (\<lambda>(cat, pats). List.map_filter (dash_figure text fname years cat) pats)
                     financialPatterns))"

subsection \<open>Aggregator\<close>

definition sample_text :: "File \<Rightarrow> nat \<Rightarrow> string" where
  "sample_text file i =
     (let nl = CHR 0x0A # replicate 14 CHR '' ''
      in ''Sample Financial Data for '' @ file_name file @ '':''
         @ nl @ ''Revenue: '' @ string_of_nat (1200000 + i * 20000) @ '' (2024)''
         @ nl @ ''EBITDA: '' @ string_of_nat (300000 + i * 5000) @ '' (2024)''
         @ nl @ ''Net Income: '' @ string_of_nat (150000 + i * 3000) @ '' (2024)''
         @ nl @ ''Total Assets: '' @ string_of_nat (2500000 + i * 50000) @ '' (2024)''
         @ nl @ ''Total Liabilities: '' @ string_of_nat (1000000 + i * 10000) @ '' (2024)''
         @ nl @ ''Cash Flow: '' @ string_of_nat (200000 + i * 8000) @ '' (2024)'')"

text \<open>
  Step 2 of the loop for the file of index \<open>i\<close>, once it is uploaded: extraction by URL;
  if it raises, extraction from the file; if that raises too, the sample text.
\<close>

definition dash_extract_text :: "services \<Rightarrow> File \<Rightarrow> nat \<Rightarrow> string \<Rightarrow> string \<times> call list" where
  "dash_extract_text sv file i publicUrl =
     (case extractFromUrl sv publicUrl of
        Inr txt \<Rightarrow> (txt, [ExtractFromUrl publicUrl])
      | Inl extractError \<Rightarrow>
          (case extractFromBlob sv file of
             Inr txt \<Rightarrow> (txt, [ExtractFromUrl publicUrl, ExtractFromBlob (file_name file)])
           | Inl blobError \<Rightarrow>
               (sample_text file i, [ExtractFromUrl publicUrl, ExtractFromBlob (file_name file)])))"

text \<open>
  The \<open>for\<close> loop over the files from index \<open>i\<close> on, with the data gathered so far. A
  raise of the upload leaves the loop, to the outer \<open>catch\<close>: the result is \<open>None\<close>.
\<close>

fun process_files ::
  "services \<Rightarrow> File list \<Rightarrow> nat \<Rightarrow> (string \<times> DashFigure list) list \<times> call list
     \<Rightarrow> (string \<times> DashFigure list) list option \<times> call list" where
  "process_files sv [] i (allExtractedData, calls) = (Some allExtractedData, calls)"
| "process_files sv (file # files) i (allExtractedData, calls) =
     (let uploadPath = ''analysis/'' @ file_name file
      in case storage_upload sv file uploadPath of
           Inl e \<Rightarrow> (None, calls @ [Upload uploadPath])
         | Inr publicUrl \<Rightarrow>
             (let (extractedText, cs) = dash_extract_text sv file i publicUrl;
                  figures = dash_extractFinancialFigures extractedText (file_name file)
              in process_files sv files (Suc i)
                   (AList.update (file_name file) figures allExtractedData,
                    calls @ [Upload uploadPath] @ cs)))"

subsection \<open>Comparator\<close>

record DocValue =
  dv_documentName :: string
  dv_value :: number
  dv_location :: string

record Discrepancy =
  d_category :: string
  d_year :: string
  d_values :: "DocValue list"
  d_status :: string
  d_variance :: number
  d_suggestion :: string

record Match =
  mt_category :: string
  mt_year :: string
  mt_value :: number
  mt_documents :: "string list"
  mt_status :: string

text \<open>
  The result of a division of two counts: \<open>0 / 0\<close> is \<open>NaN\<close>, a positive count over
  \<open>0\<close> is \<open>Infinity\<close>; a product with \<open>100\<close> keeps both.
\<close>

datatype jsnum = NaN | Infinity | Num number

definition js_div :: "nat \<Rightarrow> nat \<Rightarrow> jsnum" where
  "js_div a b = (if b = 0 then (if a = 0 then NaN else Infinity) else Num (of_nat a / of_nat b))"

fun js_times :: "jsnum \<Rightarrow> number \<Rightarrow> jsnum" where
  "js_times NaN k = NaN"
| "js_times Infinity k = (if k = 0 then NaN else Infinity)"
| "js_times (Num x) k = Num (x * k)"

text \<open>
  The view of the report (DiscrepancyReport.tsx) shows
  \<open>Math.round(consistencyScore || 0)\<close>: \<open>NaN\<close> and 0 are falsy.
\<close>

definition displayed_score :: "jsnum \<Rightarrow> jsnum" where
  "displayed_score s =
     (case s of NaN \<Rightarrow> Num 0 | Infinity \<Rightarrow> Infinity | Num x \<Rightarrow> Num (of_int \<lfloor>x + 1 / 2\<rfloor>))"

record ReportSummary =
  totalDocuments :: nat
  totalFiguresFound :: nat
  rs_discrepancyCount :: nat
  matchCount :: nat
  consistencyScore :: jsnum

record AnalysisReport =
  ar_id :: string
  documentNames :: "string list"
  ar_extractedFigures :: "(string \<times> DashFigure list) list"
  discrepancies :: "Discrepancy list"
  matches :: "Match list"
  ar_summary :: ReportSummary
  createdAt :: string

definition collect_categories_years ::
  "(string \<times> DashFigure list) list \<Rightarrow> string list \<times> string list" where
  "collect_categories_years allExtractedData =
     foldl (\<lambda>acc figures.
              foldl (\<lambda>(allCategories, allYears) figure.
                       (set_add (df_category figure) allCategories,
                        set_add (df_year figure) allYears))
                    acc figures)
           ([], []) (map snd allExtractedData)"

text \<open>The documents that have a figure of the category and year, each with its first such figure.\<close>

definition figuresForCategoryYear ::
  "(string \<times> DashFigure list) list \<Rightarrow> string \<Rightarrow> string \<Rightarrow> (string \<times> DashFigure) list" where
  "figuresForCategoryYear allExtractedData cat yr =
     List.map_filter
       (\<lambda>(docName, figures).
          map_option (Pair docName) (List.find (\<lambda>f. df_category f = cat \<and> df_year f = yr) figures))
       allExtractedData"

text \<open>\<open>Math.max\<close> and \<open>Math.min\<close> of at least one argument.\<close>

definition Math_max :: "number \<Rightarrow> number list \<Rightarrow> number" where
  "Math_max v vs = foldl max v vs"

definition Math_min :: "number \<Rightarrow> number list \<Rightarrow> number" where
  "Math_min v vs = foldl min v vs"

definition suggestion_text :: "host \<Rightarrow> string \<Rightarrow> string \<Rightarrow> number \<Rightarrow> number \<Rightarrow> number \<Rightarrow> string" where
  "suggestion_text h cat yr lo hi variance =
     cat @ '' ('' @ yr @ '') values differ across documents. Range: ''
     @ toLocaleString h lo @ '' - '' @ toLocaleString h hi
     @ '' (variance: '' @ toLocaleString h variance
     @ ''). Please verify which figure is correct.''"

datatype finding = IsMatch Match | IsDiscrepancy Discrepancy

text \<open>
  The body of the two nested loops for one category and year: a match, a discrepancy,
  or nothing when fewer than two documents have a figure.
\<close>

definition cross_pair ::
  "host \<Rightarrow> (string \<times> DashFigure list) list \<Rightarrow> string \<Rightarrow> string \<Rightarrow> finding option" where
  "cross_pair h allExtractedData cat yr =
     (let items = figuresForCategoryYear allExtractedData cat yr
      in if 1 < length items
         then (case map (\<lambda>item. df_value (snd item)) items of
                 [] \<Rightarrow> None
               | v # vs \<Rightarrow>
                   (case new_Set (v # vs) of
                      [u] \<Rightarrow>
                        Some (IsMatch \<lparr> mt_category = cat, mt_year = yr, mt_value = u,
                                        mt_documents = map fst items, mt_status = ''match'' \<rparr>)
                    | _ \<Rightarrow>
                        (let variance = Math_max v vs - Math_min v vs
                         in Some (IsDiscrepancy
                              \<lparr> d_category = cat, d_year = yr,
                                d_values = map (\<lambda>item. \<lparr> dv_documentName = fst item,
                                                         dv_value = df_value (snd item),
                                                         dv_location = df_location (snd item) \<rparr>)
                                               items,
                                d_status = ''discrepancy'',
                                d_variance = variance,
                                d_suggestion = suggestion_text h cat yr (Math_min v vs)
                                                 (Math_max v vs) variance \<rparr>))))
         else None)"

definition cross_reference :: "host \<Rightarrow> (string \<times> DashFigure list) list \<Rightarrow> finding list" where
  "cross_reference h allExtractedData =
     (let (allCategories, allYears) = collect_categories_years allExtractedData
      in concat (map (\<lambda>cat. List.map_filter (\<lambda>yr. cross_pair h allExtractedData cat yr) allYears)
                     allCategories))"

definition no_figures_error :: "File list \<Rightarrow> string" where
  "no_figures_error files =
     ''No financial figures were found in the uploaded documents. Please ensure your ''
     @ ''documents contain financial data such as Revenue, EBITDA, Net Income, Assets, ''
     @ ''Liabilities, or Cash Flow figures.''
     @ [CHR 0x0A] @ replicate 8 CHR '' '' @ [CHR 0x0A] @ replicate 8 CHR '' ''
     @ ''Documents processed: '' @ join '', '' (map file_name files)"

definition analysis_failed_error :: string where
  "analysis_failed_error =
     ''Analysis failed. Please try again or contact support if the issue persists.''"

definition build_report ::
  "host \<Rightarrow> File list \<Rightarrow> (string \<times> DashFigure list) list \<Rightarrow> AnalysisReport" where
  "build_report h files allExtractedData =
     (let findings = cross_reference h allExtractedData;
          ds = List.map_filter (\<lambda>f. case f of IsDiscrepancy d \<Rightarrow> Some d | IsMatch m \<Rightarrow> None) findings;
          ms = List.map_filter (\<lambda>f. case f of IsMatch m \<Rightarrow> Some m | IsDiscrepancy d \<Rightarrow> None) findings
      in \<lparr> ar_id = ''analysis_'' @ string_of_nat (now h),
           documentNames = map file_name files,
           ar_extractedFigures = allExtractedData,
           discrepancies = ds,
           matches = ms,
           ar_summary = \<lparr> totalDocuments = length files,
                          totalFiguresFound = sum_list (map (\<lambda>e. length (snd e)) allExtractedData),
                          rs_discrepancyCount = length ds,
                          matchCount = length ms,
                          consistencyScore = js_times (js_div (length ms) (length ms + length ds)) 100 \<rparr>,
           createdAt = isoNow h \<rparr>)"

text \<open>
  \<open>analyzeDocuments\<close>: the error shown (\<open>Inl\<close>) or the report handed to
  \<open>onAnalysisComplete\<close> (\<open>Inr\<close>), and the calls made.
\<close>

definition analyzeDocuments ::
  "host \<Rightarrow> services \<Rightarrow> File list \<Rightarrow> (string + AnalysisReport) \<times> call list" where
  "analyzeDocuments h sv files =
     (case process_files sv files 0 ([], []) of
        (None, calls) \<Rightarrow> (Inl analysis_failed_error, calls)
      | (Some allExtractedData, calls) \<Rightarrow>
          if sum_list (map (\<lambda>e. length (snd e)) allExtractedData) = 0
          then (Inl (no_figures_error files), calls)
          else (Inr (build_report h files allExtractedData), calls))"

section \<open>Properties of the comparator\<close>

lemma set_new_Set_aux: "set (foldl (\<lambda>s x. set_add x s) acc xs) = set acc \<union> set xs"
  by (induction xs arbitrary: acc) (auto simp: set_add_def)

lemma distinct_new_Set_aux: "distinct acc \<Longrightarrow> distinct (foldl (\<lambda>s x. set_add x s) acc xs)"
  by (induction xs arbitrary: acc) (auto simp: set_add_def)

lemma set_new_Set: "set (new_Set xs) = set xs"
  by (simp add: new_Set_def set_new_Set_aux)

lemma distinct_new_Set: "distinct (new_Set xs)"
  by (simp add: new_Set_def distinct_new_Set_aux)

lemma length_new_Set: "length (new_Set xs) = card (set xs)"
  using distinct_card [OF distinct_new_Set, of xs] by (simp add: set_new_Set)

text \<open>
  C6. The summary of every report satisfies
  \<open>discrepancyCount + consistentCount = totalComparisons\<close>, where \<open>consistentCount\<close>
  counts the emitted comparisons that are consistent and \<open>totalComparisons\<close> counts
  the emitted comparisons.
\<close>

theorem summary_counts_add_up:
  "discrepancyCount (summary (crossCheckReport fmt analyses))
     + consistentCount (summary (crossCheckReport fmt analyses))
     = totalComparisons (summary (crossCheckReport fmt analyses))
   \<and> consistentCount (summary (crossCheckReport fmt analyses))
     = length (filter cr_consistent (comparisons (crossCheckReport fmt analyses)))
   \<and> totalComparisons (summary (crossCheckReport fmt analyses))
     = length (comparisons (crossCheckReport fmt analyses))"
  by (simp add: crossCheckReport_def Let_def)

definition entry_of :: "string \<Rightarrow> string \<Rightarrow> DocumentAnalysis \<Rightarrow> number option" where
  "entry_of field yr analysis = map_option val (find_figure analysis field yr)"

lemma fst_gather_step:
  "fst (gather_step field yr acc a) = AList.update (fileName a) (entry_of field yr a) (fst acc)"
  by (simp add: gather_step_def entry_of_def Let_def)

lemma fst_foldl_gather:
  "fst (foldl (gather_step field yr) acc as)
     = foldl (\<lambda>vs a. AList.update (fileName a) (entry_of field yr a) vs) (fst acc) as"
  by (induction as arbitrary: acc) (simp_all add: fst_gather_step)

lemma distinct_foldl_update:
  "distinct (map fst vs) \<Longrightarrow>
   distinct (map fst (foldl (\<lambda>vs a. AList.update (k a) (e a) vs) vs as))"
  by (induction as arbitrary: vs) (simp_all add: distinct_update)

lemma keys_foldl_update:
  "fst ` set (foldl (\<lambda>vs a. AList.update (k a) (e a) vs) vs as) = fst ` set vs \<union> k ` set as"
  by (induction as arbitrary: vs) (auto simp: dom_update)

lemma map_of_foldl_update:
  "map_of (foldl (\<lambda>vs a. AList.update (k a) (e a) vs) vs as) n
     = (case filter (\<lambda>a. k a = n) as of [] \<Rightarrow> map_of vs n | bs \<Rightarrow> Some (e (last bs)))"
proof (induction as arbitrary: vs)
  case Nil
  show ?case by simp
next
  case (Cons a as)
  show ?case
    by (simp add: Cons.IH update_conv' split: list.splits)
qed


lemma count_nonNull:
  assumes "distinct (map fst vs)"
  shows "length (nonNullValues vs) = card {n. \<exists>v. map_of vs n = Some (Some v)}"
proof -
  let ?ps = "filter (\<lambda>p. snd p \<noteq> None) vs"
  have d: "distinct (map fst ?ps)"
    using assms by (rule distinct_map_filter)
  have "length (nonNullValues vs) = length (map fst ?ps)"
    by (simp add: nonNullValues_def filter_map comp_def)
  also have "\<dots> = card (set (map fst ?ps))"
    using distinct_card [OF d] by simp
  also have "set (map fst ?ps) = {n. \<exists>v. map_of vs n = Some (Some v)}"
  proof (intro set_eqI iffI)
    fix n assume "n \<in> set (map fst ?ps)"
    then obtain p where p: "p \<in> set vs" "snd p \<noteq> None" "fst p = n" by auto
    from p(2) obtain v where "snd p = Some v" by blast
    with p(3) have "p = (n, Some v)" by (cases p) simp
    with p(1) assms have "map_of vs n = Some (Some v)" by simp
    then show "n \<in> {n. \<exists>v. map_of vs n = Some (Some v)}" by blast
  next
    fix n assume "n \<in> {n. \<exists>v. map_of vs n = Some (Some v)}"
    then obtain v where "map_of vs n = Some (Some v)" by blast
    then have "(n, Some v) \<in> set vs" by (rule map_of_SomeD)
    then show "n \<in> set (map fst ?ps)" by force
  qed
  finally show ?thesis .
qed

lemma set_nonNull:
  "set (nonNullValues vs) = Some ` {v. \<exists>n. (n, Some v) \<in> set vs}"
  by (force simp: nonNullValues_def image_iff)

lemma card_present:
  "card (set (nonNullValues vs)) = card {v. \<exists>n. (n, Some v) \<in> set vs}"
  by (simp add: set_nonNull card_image)


lemma fst_gather:
  "fst (gather analyses field yr)
     = foldl (\<lambda>vs a. AList.update (fileName a) (entry_of field yr a) vs) [] analyses"
  by (simp add: gather_def fst_foldl_gather)

lemma compare_pair_Some:
  assumes "compare_pair analyses field yr = Some c"
  shows "cr_values c = fst (gather analyses field yr)"
    and "cr_field c = field" and "cr_year c = yr"
    and "2 \<le> length (nonNullValues (cr_values c))"
    and "cr_consistent c \<longleftrightarrow> length (new_Set (nonNullValues (cr_values c))) = 1"
  using assms
  by (auto simp: compare_pair_def Let_def split: prod.splits if_splits)

lemma generateComparisons_mem:
  assumes "c \<in> set (generateComparisons analyses)"
  shows "\<exists>field yr. compare_pair analyses field yr = Some c"
  using assms
  by (auto simp: generateComparisons_def Let_def map_filter_def split: prod.splits) blast

lemma comparisons_report [simp]:
  "comparisons (crossCheckReport fmt analyses) = generateComparisons analyses"
  by (simp add: crossCheckReport_def Let_def)

lemma values_distinct: "distinct (map fst (fst (gather analyses field yr)))"
  unfolding fst_gather by (rule distinct_foldl_update) simp

lemma values_keys: "fst ` set (fst (gather analyses field yr)) = fileName ` set analyses"
  unfolding fst_gather by (simp add: keys_foldl_update)

lemma values_lookup:
  "map_of (fst (gather analyses field yr)) n
     = (case filter (\<lambda>a. fileName a = n) analyses of [] \<Rightarrow> None
        | bs \<Rightarrow> Some (entry_of field yr (last bs)))"
  unfolding fst_gather by (simp add: map_of_foldl_update split: list.splits)

lemma present_names_subset:
  "{n. \<exists>v. map_of (fst (gather analyses field yr)) n = Some (Some v)}
     \<subseteq> fileName ` {a \<in> set analyses. find_figure a field yr \<noteq> None}"
proof
  fix n assume "n \<in> {n. \<exists>v. map_of (fst (gather analyses field yr)) n = Some (Some v)}"
  then obtain v where v: "map_of (fst (gather analyses field yr)) n = Some (Some v)" by blast
  let ?bs = "filter (\<lambda>a. fileName a = n) analyses"
  from v have ne: "?bs \<noteq> []" and e: "entry_of field yr (last ?bs) = Some v"
    by (auto simp: values_lookup split: list.splits)
  from ne have "last ?bs \<in> set ?bs" by (rule last_in_set)
  then have "last ?bs \<in> set analyses" "fileName (last ?bs) = n" by auto
  moreover from e have "find_figure (last ?bs) field yr \<noteq> None"
    by (auto simp: entry_of_def)
  ultimately show "n \<in> fileName ` {a \<in> set analyses. find_figure a field yr \<noteq> None}"
    by (intro image_eqI [where x = "last ?bs"]) simp_all
qed

lemma two_documents:
  assumes "compare_pair analyses field yr = Some c"
  shows "2 \<le> card (fileName ` {a \<in> set analyses. find_figure a field yr \<noteq> None})"
proof -
  have "2 \<le> length (nonNullValues (fst (gather analyses field yr)))"
    using compare_pair_Some(1,4) [OF assms] by simp
  also have "\<dots> = card {n. \<exists>v. map_of (fst (gather analyses field yr)) n = Some (Some v)}"
    by (rule count_nonNull) (rule values_distinct)
  also have "\<dots> \<le> card (fileName ` {a \<in> set analyses. find_figure a field yr \<noteq> None})"
    by (rule card_mono) (simp, rule present_names_subset)
  finally show ?thesis .
qed

lemma single_document: "generateComparisons [a] = []"
proof -
  have "compare_pair [a] field yr = None" for field yr
    by (simp add: compare_pair_def gather_def gather_step_def nonNullValues_def Let_def
        split: prod.splits)
  then show ?thesis
    by (simp add: generateComparisons_def map_filter_def split: prod.splits)
qed

text \<open>
  C1. A comparison is emitted for a (field, year) pair only when at least two documents
  have a value for the pair (two distinct file names, hence two entries of the list), and it
  is consistent iff the set of the values present has exactly one element; a list of one
  document yields no comparison.
\<close>

theorem comparison_needs_two_values:
  "(\<forall>c \<in> set (comparisons (crossCheckReport fmt analyses)).
      2 \<le> card (fileName ` {a \<in> set analyses. find_figure a (cr_field c) (cr_year c) \<noteq> None})
      \<and> 2 \<le> length (filter (\<lambda>a. find_figure a (cr_field c) (cr_year c) \<noteq> None) analyses)
      \<and> (cr_consistent c \<longleftrightarrow> card {v. \<exists>n. (n, Some v) \<in> set (cr_values c)} = 1))
   \<and> comparisons (crossCheckReport fmt [a]) = []"
proof (intro conjI ballI)
  fix c assume "c \<in> set (comparisons (crossCheckReport fmt analyses))"
  then obtain field yr where cp: "compare_pair analyses field yr = Some c"
    using generateComparisons_mem [of c analyses] by auto
  note f = compare_pair_Some(2,3) [OF cp]
  let ?S = "{a \<in> set analyses. find_figure a (cr_field c) (cr_year c) \<noteq> None}"
  show two: "2 \<le> card (fileName ` ?S)"
    using two_documents [OF cp] by (simp add: f)
  have "card (fileName ` ?S) \<le> card ?S"
    by (rule card_image_le) simp
  also have "?S = set (filter (\<lambda>a. find_figure a (cr_field c) (cr_year c) \<noteq> None) analyses)"
    by auto
  also have "card \<dots> \<le> length (filter (\<lambda>a. find_figure a (cr_field c) (cr_year c) \<noteq> None) analyses)"
    by (rule card_length)
  finally show "2 \<le> length (filter (\<lambda>a. find_figure a (cr_field c) (cr_year c) \<noteq> None) analyses)"
    using two by simp
  show "cr_consistent c \<longleftrightarrow> card {v. \<exists>n. (n, Some v) \<in> set (cr_values c)} = 1"
    using compare_pair_Some(5) [OF cp] by (simp add: length_new_Set card_present)
next
  show "comparisons (crossCheckReport fmt [a]) = []"
    by (simp add: single_document)
qed

text \<open>
  C10. In every emitted comparison the keys of \<open>values\<close> are the file names of the
  analyses, each once. The entry of a name is taken from the last analysis carrying that
  name, so a later analysis overwrites an earlier one of the same name: it is the value of
  the first of its figures whose label and year are the field and year of the comparison,
  and \<open>null\<close> when it has no such figure.
\<close>

theorem values_keyed_by_fileName:
  "\<forall>c \<in> set (comparisons (crossCheckReport fmt analyses)).
     distinct (map fst (cr_values c))
     \<and> fst ` set (cr_values c) = fileName ` set analyses
     \<and> (\<forall>a \<in> set analyses.
          map_of (cr_values c) (fileName a)
            = Some (map_option val
                (List.find (\<lambda>f. label f = cr_field c \<and> year f = cr_year c)
                   (extractedFigures (last (filter (\<lambda>b. fileName b = fileName a) analyses)))))
          \<and> (\<forall>v. map_of (cr_values c) (fileName a) = Some (Some v) \<longleftrightarrow>
                (\<exists>i < length (extractedFigures (last (filter (\<lambda>b. fileName b = fileName a) analyses))).
                   label (extractedFigures (last (filter (\<lambda>b. fileName b = fileName a) analyses)) ! i)
                     = cr_field c
                   \<and> year (extractedFigures (last (filter (\<lambda>b. fileName b = fileName a) analyses)) ! i)
                     = cr_year c
                   \<and> val (extractedFigures (last (filter (\<lambda>b. fileName b = fileName a) analyses)) ! i)
                     = v
                   \<and> (\<forall>j < i.
                        \<not> (label (extractedFigures
                                (last (filter (\<lambda>b. fileName b = fileName a) analyses)) ! j) = cr_field c
                           \<and> year (extractedFigures
                                (last (filter (\<lambda>b. fileName b = fileName a) analyses)) ! j) = cr_year c))))
          \<and> (map_of (cr_values c) (fileName a) = Some None \<longleftrightarrow>
                (\<forall>f \<in> set (extractedFigures (last (filter (\<lambda>b. fileName b = fileName a) analyses))).
                   \<not> (label f = cr_field c \<and> year f = cr_year c))))"
proof (intro ballI conjI allI)
  fix c assume "c \<in> set (comparisons (crossCheckReport fmt analyses))"
  then obtain field yr where cp: "compare_pair analyses field yr = Some c"
    using generateComparisons_mem [of c analyses] by auto
  note f = compare_pair_Some(1,2,3) [OF cp]
  show "distinct (map fst (cr_values c))"
    by (simp add: f values_distinct)
  show "fst ` set (cr_values c) = fileName ` set analyses"
    by (simp add: f values_keys)
  fix a assume a: "a \<in> set analyses"
  let ?figs = "extractedFigures (last (filter (\<lambda>b. fileName b = fileName a) analyses))"
  let ?P = "\<lambda>f. label f = cr_field c \<and> year f = cr_year c"
  from a have "filter (\<lambda>b. fileName b = fileName a) analyses \<noteq> []"
    by (auto simp: filter_empty_conv)
  then show e: "map_of (cr_values c) (fileName a) = Some (map_option val (List.find ?P ?figs))"
    by (simp add: f values_lookup entry_of_def find_figure_def split: list.splits)
  show "map_of (cr_values c) (fileName a) = Some None \<longleftrightarrow> (\<forall>f \<in> set ?figs. \<not> ?P f)"
    unfolding e by (auto simp: find_None_iff)
  fix v
  show "map_of (cr_values c) (fileName a) = Some (Some v) \<longleftrightarrow>
      (\<exists>i < length ?figs. label (?figs ! i) = cr_field c \<and> year (?figs ! i) = cr_year c
          \<and> val (?figs ! i) = v
          \<and> (\<forall>j < i. \<not> (label (?figs ! j) = cr_field c \<and> year (?figs ! j) = cr_year c)))"
    unfolding e by (auto simp: find_Some_iff)
qed


definition figA :: ExtractedFigure where
  "figA = \<lparr> category = ''Income Statement'', year = ''2024'', val = 1000000, label = ''Revenue'',
            documentName = ''a.pdf'', location = ''PDF page 1'', confidence = 17 / 20 \<rparr>"

definition figB :: ExtractedFigure where
  "figB = \<lparr> category = ''Income Statement'', year = ''2024'', val = 1200000, label = ''Revenue'',
            documentName = ''b.pdf'', location = ''PDF page 1'', confidence = 17 / 20 \<rparr>"

definition docA :: DocumentAnalysis where
  "docA = \<lparr> fileName = ''a.pdf'', extractedFigures = [figA], extractionStatus = success,
            errorMessage = None \<rparr>"

definition docB :: DocumentAnalysis where
  "docB = \<lparr> fileName = ''b.pdf'', extractedFigures = [figB], extractionStatus = success,
            errorMessage = None \<rparr>"

definition cmpAB :: ComparisonResult where
  "cmpAB = \<lparr> cr_year = ''2024'', cr_field = ''Revenue'',
             cr_values = [(''a.pdf'', Some 1000000), (''b.pdf'', Some 1200000)],
             cr_consistent = False, cr_category = ''Income Statement'' \<rparr>"

lemma generateComparisons_docA_docB: "generateComparisons [docA, docB] = [cmpAB]"
  by (simp add: generateComparisons_def collect_fields_years_def set_add_def compare_pair_def
      gather_def gather_step_def find_figure_def nonNullValues_def new_Set_def map_filter_def
      docA_def docB_def figA_def figB_def cmpAB_def Let_def)

theorem comparison_needs_two_values_witness:
  "comparisons (crossCheckReport (\<lambda>_. []) [docA, docB]) = [cmpAB]
   \<and> 2 \<le> card (fileName ` {a \<in> set [docA, docB]. find_figure a ''Revenue'' ''2024'' \<noteq> None})
   \<and> 2 \<le> length (filter (\<lambda>a. find_figure a ''Revenue'' ''2024'' \<noteq> None) [docA, docB])
   \<and> \<not> cr_consistent cmpAB
   \<and> card {v. \<exists>n. (n, Some v) \<in> set (cr_values cmpAB)} \<noteq> 1
   \<and> comparisons (crossCheckReport (\<lambda>_. []) [docA]) = []"
proof -
  have e: "comparisons (crossCheckReport (\<lambda>_. []) [docA, docB]) = [cmpAB]"
    by (simp add: generateComparisons_docA_docB)
  then have m: "cmpAB \<in> set (comparisons (crossCheckReport (\<lambda>_. []) [docA, docB]))"
    by simp
  have f: "cr_field cmpAB = ''Revenue''" "cr_year cmpAB = ''2024''" "\<not> cr_consistent cmpAB"
    by (simp_all add: cmpAB_def)
  have one: "comparisons (crossCheckReport (\<lambda>_. []) [docA]) = []"
    using comparison_needs_two_values [of "\<lambda>_. []" "[docA, docB]" docA] by (rule conjunct2)
  have "2 \<le> card (fileName ` {a \<in> set [docA, docB].
            find_figure a (cr_field cmpAB) (cr_year cmpAB) \<noteq> None})
      \<and> 2 \<le> length (filter (\<lambda>a. find_figure a (cr_field cmpAB) (cr_year cmpAB) \<noteq> None)
            [docA, docB])
      \<and> (cr_consistent cmpAB \<longleftrightarrow> card {v. \<exists>n. (n, Some v) \<in> set (cr_values cmpAB)} = 1)"
    using comparison_needs_two_values [of "\<lambda>_. []" "[docA, docB]" docA] m by blast
  then show ?thesis
    unfolding f using e one f(3) by blast
qed

text \<open>
  Two analyses share the name \<open>a.pdf\<close>: the later one lists a figure of another field
  first, then two figures for Revenue in 2024.
\<close>

definition figE :: ExtractedFigure where
  "figE = \<lparr> category = ''Income Statement'', year = ''2024'', val = 7, label = ''EBITDA'',
            documentName = ''a.pdf'', location = ''PDF page 1'', confidence = 17 / 20 \<rparr>"

definition figA2 :: ExtractedFigure where
  "figA2 = \<lparr> category = ''Income Statement'', year = ''2024'', val = 1100000, label = ''Revenue'',
             documentName = ''a.pdf'', location = ''PDF page 2'', confidence = 17 / 20 \<rparr>"

definition figA3 :: ExtractedFigure where
  "figA3 = \<lparr> category = ''Income Statement'', year = ''2024'', val = 999, label = ''Revenue'',
             documentName = ''a.pdf'', location = ''PDF page 3'', confidence = 17 / 20 \<rparr>"

definition docA_later :: DocumentAnalysis where
  "docA_later = \<lparr> fileName = ''a.pdf'', extractedFigures = [figE, figA2, figA3],
                  extractionStatus = success, errorMessage = None \<rparr>"

definition cmp_shared :: ComparisonResult where
  "cmp_shared = \<lparr> cr_year = ''2024'', cr_field = ''Revenue'',
                  cr_values = [(''a.pdf'', Some 1100000), (''b.pdf'', Some 1200000)],
                  cr_consistent = False, cr_category = ''Income Statement'' \<rparr>"

lemma generateComparisons_shared: "generateComparisons [docA, docA_later, docB] = [cmp_shared]"
  by (simp add: generateComparisons_def collect_fields_years_def set_add_def compare_pair_def
      gather_def gather_step_def find_figure_def nonNullValues_def new_Set_def map_filter_def
      docA_def docA_later_def docB_def figA_def figB_def figE_def figA2_def figA3_def
      cmp_shared_def Let_def)

lemma last_named_a:
  "last (filter (\<lambda>b. fileName b = fileName docA) [docA, docA_later, docB]) = docA_later"
  by (simp add: docA_def docA_later_def docB_def)

lemma find_in_later:
  "List.find (\<lambda>f. label f = ''Revenue'' \<and> year f = ''2024'') (extractedFigures docA_later)
     = Some figA2"
  by (simp add: docA_later_def figE_def figA2_def figA3_def)

theorem values_keyed_by_fileName_witness:
  "comparisons (crossCheckReport (\<lambda>_. []) [docA, docA_later, docB]) = [cmp_shared]
   \<and> distinct (map fst (cr_values cmp_shared))
   \<and> fst ` set (cr_values cmp_shared) = fileName ` set [docA, docA_later, docB]
   \<and> fileName docA = fileName docA_later
   \<and> last (filter (\<lambda>b. fileName b = fileName docA) [docA, docA_later, docB]) = docA_later
   \<and> List.find (\<lambda>f. label f = ''Revenue'' \<and> year f = ''2024'') (extractedFigures docA_later)
       = Some figA2
   \<and> map_of (cr_values cmp_shared) (fileName docA) = Some (Some (val figA2))
   \<and> val figA2 = 1100000
   \<and> extractedFigures docA_later ! 1 = figA2
   \<and> label (extractedFigures docA_later ! 0) = ''EBITDA''"
proof -
  have e: "comparisons (crossCheckReport (\<lambda>_. []) [docA, docA_later, docB]) = [cmp_shared]"
    by (simp add: generateComparisons_shared)
  then have m: "cmp_shared \<in> set (comparisons (crossCheckReport (\<lambda>_. []) [docA, docA_later, docB]))"
    by simp
  have f: "cr_field cmp_shared = ''Revenue''" "cr_year cmp_shared = ''2024''"
    by (simp_all add: cmp_shared_def)
  have a: "docA \<in> set [docA, docA_later, docB]" by simp
  have n: "fileName docA = fileName docA_later"
    by (simp add: docA_def docA_later_def)
  have x: "val figA2 = 1100000" "extractedFigures docA_later ! 1 = figA2"
    "label (extractedFigures docA_later ! 0) = ''EBITDA''"
    by (simp_all add: figA2_def docA_later_def figE_def)
  from values_keyed_by_fileName [of "\<lambda>_. []" "[docA, docA_later, docB]"] m
  have k: "distinct (map fst (cr_values cmp_shared))"
    "fst ` set (cr_values cmp_shared) = fileName ` set [docA, docA_later, docB]"
    and "\<forall>a \<in> set [docA, docA_later, docB].
          map_of (cr_values cmp_shared) (fileName a)
            = Some (map_option val
                (List.find (\<lambda>f. label f = cr_field cmp_shared \<and> year f = cr_year cmp_shared)
                   (extractedFigures (last (filter (\<lambda>b. fileName b = fileName a)
                      [docA, docA_later, docB])))))"
    by blast+
  with a have "map_of (cr_values cmp_shared) (fileName docA)
            = Some (map_option val
                (List.find (\<lambda>f. label f = cr_field cmp_shared \<and> year f = cr_year cmp_shared)
                   (extractedFigures (last (filter (\<lambda>b. fileName b = fileName docA)
                      [docA, docA_later, docB])))))"
    by blast
  then have "map_of (cr_values cmp_shared) (fileName docA) = Some (Some (val figA2))"
    unfolding f last_named_a find_in_later by simp
  with e k n x last_named_a find_in_later show ?thesis by simp
qed

section \<open>Properties of the extractor of the engine\<close>


definition distance :: "nat \<Rightarrow> nat \<Rightarrow> nat" where
  "distance a b = (if a \<le> b then b - a else a - b)"

text \<open>The candidate years are never empty, so the default of the loop is the first of them.\<close>

lemma found_years_nonempty: "found_years cy text \<noteq> []"
  by (simp add: found_years_def Let_def set_add_def)









lemma figures_from_matches:
  "f \<in> set (extractFinancialFigures cy text fname) \<longleftrightarrow>
     (\<exists>cat field ps p m. (cat, field, ps) \<in> set patterns \<and> p \<in> set ps
        \<and> m \<in> set (exec_all p text 0)
        \<and> figure_of_match text fname (found_years cy text) cat field m = Some f)"
proof
  assume "f \<in> set (extractFinancialFigures cy text fname)"
  then obtain e p m where e: "e \<in> set patterns" and p: "p \<in> set (snd (snd e))"
    and m: "m \<in> set (exec_all p text 0)"
    and f: "figure_of_match text fname (found_years cy text) (fst e) (fst (snd e)) m = Some f"
    by (auto simp: extractFinancialFigures_def Let_def map_filter_def split: prod.splits)
  from e have "(fst e, fst (snd e), snd (snd e)) \<in> set patterns" by simp
  with p m f show "\<exists>cat field ps p m. (cat, field, ps) \<in> set patterns \<and> p \<in> set ps
        \<and> m \<in> set (exec_all p text 0)
        \<and> figure_of_match text fname (found_years cy text) cat field m = Some f"
    by blast
next
  assume "\<exists>cat field ps p m. (cat, field, ps) \<in> set patterns \<and> p \<in> set ps
        \<and> m \<in> set (exec_all p text 0)
        \<and> figure_of_match text fname (found_years cy text) cat field m = Some f"
  then obtain cat field ps p m where e: "(cat, field, ps) \<in> set patterns" and p: "p \<in> set ps"
    and m: "m \<in> set (exec_all p text 0)"
    and f: "figure_of_match text fname (found_years cy text) cat field m = Some f"
    by blast
  let ?g = "figure_of_match text fname (found_years cy text) cat field"
  from m f have "f \<in> set (List.map_filter ?g (exec_all p text 0))"
    by (force simp: map_filter_def image_iff)
  with p have "f \<in> set (concat (map (\<lambda>p. List.map_filter ?g (exec_all p text 0)) ps))"
    by auto
  then have "f \<in> set ((\<lambda>(cat, field, fieldPatterns).
      concat (map (\<lambda>p. List.map_filter
        (figure_of_match text fname (found_years cy text) cat field) (exec_all p text 0))
        fieldPatterns)) (cat, field, ps))"
    by simp
  with e show "f \<in> set (extractFinancialFigures cy text fname)"
    unfolding extractFinancialFigures_def Let_def set_concat set_map by blast
qed



definition revenue_pattern :: pattern where
  "revenue_pattern = phrase CHR ''r'' ''evenue'' amount"

lemma revenue_in_table:
  "(''Income Statement'', ''Revenue'',
      [revenue_pattern, phrase CHR ''s'' ''ales'' amount, phrase CHR ''t'' ''otal revenue'' amount])
     \<in> set patterns"
  by (simp add: patterns_def revenue_pattern_def)

definition text_near :: string where
  "text_near = ''Revenue: 5 (2024)''"


definition figure_near :: ExtractedFigure where
  "figure_near = \<lparr> category = ''Income Statement'', year = ''2024'', val = 5, label = ''Revenue'',
       documentName = ''a.pdf'', location = ''PDF page 1'', confidence = 85 / 100 \<rparr>"


lemma near_match:
  "exec_all revenue_pattern text_near 0
     = [\<lparr> m_index = 0, m_text = ''Revenue: 5'', m_group = ''5'' \<rparr>]"
  by code_simp


lemma near_figure:
  "figure_of_match text_near ''a.pdf'' (found_years 2026 text_near) ''Income Statement'' ''Revenue''
     \<lparr> m_index = 0, m_text = ''Revenue: 5'', m_group = ''5'' \<rparr> = Some figure_near"
  by code_simp









section \<open>Properties of the document analysis\<close>

text \<open>
  The two strategies as the analysis runs them: by URL (upload, then extraction from the
  public URL) and from the file itself; and the text the analysis goes on with, which is
  that of the first strategy that does not raise.
\<close>

definition url_strategy :: "host \<Rightarrow> services \<Rightarrow> File \<Rightarrow> string + string" where
  "url_strategy h sv file =
     (case storage_upload sv file (upload_path h file) of
        Inl e \<Rightarrow> Inl e
      | Inr publicUrl \<Rightarrow> extractFromUrl sv publicUrl)"

definition obtained_text :: "host \<Rightarrow> services \<Rightarrow> File \<Rightarrow> string option" where
  "obtained_text h sv file =
     (case url_strategy h sv file of
        Inr txt \<Rightarrow> Some txt
      | Inl e \<Rightarrow> (case extractFromBlob sv file of Inr txt \<Rightarrow> Some txt | Inl e' \<Rightarrow> None))"

definition url_calls :: "host \<Rightarrow> services \<Rightarrow> File \<Rightarrow> call list" where
  "url_calls h sv file =
     (case storage_upload sv file (upload_path h file) of
        Inl e \<Rightarrow> [Upload (upload_path h file)]
      | Inr publicUrl \<Rightarrow> [Upload (upload_path h file), ExtractFromUrl publicUrl])"

lemma extract_text_eq:
  "extract_text h sv file =
     ((case obtained_text h sv file of Some txt \<Rightarrow> Inr txt | None \<Rightarrow> Inl (both_failed_message file)),
      url_calls h sv file
        @ (if isl (url_strategy h sv file) then [ExtractFromBlob (file_name file)] else []))"
  by (auto simp: extract_text_def blob_fallback_def obtained_text_def url_strategy_def
      url_calls_def Let_def split: sum.splits)

lemma analyze_body_eq:
  "analyze_body h sv file =
     (case validate file of
        Some msg \<Rightarrow> (Inl msg, [])
      | None \<Rightarrow>
          ((case obtained_text h sv file of
              None \<Rightarrow> Inl (both_failed_message file)
            | Some txt \<Rightarrow>
                if trim txt = [] then Inl (no_text_message file)
                else Inr (extractFinancialFigures (currentYear h) txt (file_name file))),
           url_calls h sv file
             @ (if isl (url_strategy h sv file) then [ExtractFromBlob (file_name file)] else [])))"
  by (simp add: analyze_body_def extract_text_eq split: option.splits)

text \<open>
  C4 (amended). The status is \<open>success\<close> iff figures were extracted. It is
  \<open>failed\<close> iff validation rejects the file, or both strategies raise, or the text
  obtained is blank; the figures are then empty and an error message is set. It is
  \<open>partial\<close> iff a non-blank text was obtained and no figure matched. A raise of the
  upload or of the extraction by URL alone does not fail the document.
\<close>

theorem status_of_analysis:
  "(extractionStatus (fst (analyzeDocument h sv file)) = success
      \<longleftrightarrow> extractedFigures (fst (analyzeDocument h sv file)) \<noteq> [])
   \<and> (extractionStatus (fst (analyzeDocument h sv file)) = failed
      \<longleftrightarrow> validate file \<noteq> None
          \<or> (isl (url_strategy h sv file) \<and> isl (extractFromBlob sv file))
          \<or> (\<exists>txt. obtained_text h sv file = Some txt \<and> trim txt = []))
   \<and> (extractionStatus (fst (analyzeDocument h sv file)) = failed
      \<longrightarrow> extractedFigures (fst (analyzeDocument h sv file)) = []
          \<and> errorMessage (fst (analyzeDocument h sv file)) \<noteq> None)
   \<and> (extractionStatus (fst (analyzeDocument h sv file)) = partial
      \<longleftrightarrow> validate file = None
          \<and> (\<exists>txt. obtained_text h sv file = Some txt \<and> trim txt \<noteq> []
                \<and> extractFinancialFigures (currentYear h) txt (file_name file) = []))"
  by (auto simp: analyzeDocument_def analyze_body_eq obtained_text_def
      split: option.splits sum.splits if_splits)

text \<open>
  C5 (amended). For a file that passes validation the engine runs the URL strategy first
  and calls the extraction from the file exactly when the upload or the extraction by URL
  raises, not when the text returned is blank; the document is \<open>failed\<close> iff both
  strategies raise or the text obtained is blank. A file that validation rejects is
  \<open>failed\<close> without any call. The dashboard, once the file is uploaded, extracts by
  URL first, from the file exactly when that raises, and goes on with the sample text when
  both raise.
\<close>

theorem fallback_order:
  "(validate file = None \<longrightarrow>
      snd (analyzeDocument h sv file)
        = url_calls h sv file
          @ (if isl (url_strategy h sv file) then [ExtractFromBlob (file_name file)] else [])
      \<and> (extractionStatus (fst (analyzeDocument h sv file)) = failed
          \<longleftrightarrow> (isl (url_strategy h sv file) \<and> isl (extractFromBlob sv file))
              \<or> (\<exists>txt. obtained_text h sv file = Some txt \<and> trim txt = [])))
   \<and> (validate file \<noteq> None \<longrightarrow>
      snd (analyzeDocument h sv file) = []
      \<and> extractionStatus (fst (analyzeDocument h sv file)) = failed)
   \<and> snd (dash_extract_text sv file i publicUrl)
        = ExtractFromUrl publicUrl
          # (if isl (extractFromUrl sv publicUrl) then [ExtractFromBlob (file_name file)] else [])
   \<and> fst (dash_extract_text sv file i publicUrl)
        = (case extractFromUrl sv publicUrl of
             Inr txt \<Rightarrow> txt
           | Inl e \<Rightarrow> (case extractFromBlob sv file of
                         Inr txt \<Rightarrow> txt
                       | Inl e' \<Rightarrow> sample_text file i))"
  by (auto simp: analyzeDocument_def analyze_body_eq obtained_text_def dash_extract_text_def
      split: option.splits sum.splits if_splits)


subsection \<open>Concrete runs\<close>

definition host0 :: host where
  "host0 = \<lparr> now = 0, currentYear = 2026, isoNow = ''2026-01-01T00:00:00.000Z'',
             encodeURIComponent = (\<lambda>s. s), toLocaleString = (\<lambda>v. ''#'') \<rparr>"

definition file_a :: File where
  "file_a = \<lparr> file_name = ''a.pdf'', file_size = 1024, file_type = ''application/pdf'' \<rparr>"

definition file_empty :: File where
  "file_empty = \<lparr> file_name = ''a.pdf'', file_size = 0, file_type = ''application/pdf'' \<rparr>"

text \<open>Extraction by URL returns blank text; extraction from the file would return a revenue line.\<close>

definition services_blank :: services where
  "services_blank = \<lparr> storage_upload = (\<lambda>file path. Inr ''u''),
                       extractFromUrl = (\<lambda>url. Inr ''  ''),
                       extractFromBlob = (\<lambda>file. Inr text_near) \<rparr>"

text \<open>The upload raises; extraction from the file returns a revenue line.\<close>

definition services_upload_raises :: services where
  "services_upload_raises = \<lparr> storage_upload = (\<lambda>file path. Inl ''upload failed''),
                               extractFromUrl = (\<lambda>url. Inr text_near),
                               extractFromBlob = (\<lambda>file. Inr text_near) \<rparr>"


lemma extension_a_pdf: "extension ''a.pdf'' = ''pdf''"
  by code_simp

lemma validate_file_a: "validate file_a = None"
  by (simp add: validate_def file_a_def extension_a_pdf)

lemma validate_file_empty: "validate file_empty \<noteq> None"
  by (simp add: validate_def file_empty_def)

lemma trim_blank: "trim ''  '' = []"
  by code_simp

lemma trim_text_near: "trim text_near \<noteq> []"
  by code_simp

lemma near_figure_emitted: "figure_near \<in> set (extractFinancialFigures 2026 text_near ''a.pdf'')"
proof -
  have "revenue_pattern \<in> set [revenue_pattern, phrase CHR ''s'' ''ales'' amount,
          phrase CHR ''t'' ''otal revenue'' amount]"
    by simp
  moreover have "\<lparr> m_index = 0, m_text = ''Revenue: 5'', m_group = ''5'' \<rparr>
      \<in> set (exec_all revenue_pattern text_near 0)"
    by (simp add: near_match)
  ultimately show ?thesis
    unfolding figures_from_matches using revenue_in_table near_figure by blast
qed

lemma blank_run:
  "analyzeDocument host0 services_blank file_a
     = (\<lparr> fileName = ''a.pdf'', extractedFigures = [], extractionStatus = failed,
          errorMessage = Some (no_text_message file_a) \<rparr>,
        [Upload ''analysis/0-a.pdf'', ExtractFromUrl ''u''])"
  by (simp add: analyzeDocument_def analyze_body_def validate_file_a extract_text_def
      upload_path_def services_blank_def host0_def trim_blank string_of_nat.simps)
     (simp add: file_a_def)

lemma upload_raises_run:
  "extractionStatus (fst (analyzeDocument host0 services_upload_raises file_a)) = success
   \<and> snd (analyzeDocument host0 services_upload_raises file_a)
       = [Upload ''analysis/0-a.pdf'', ExtractFromBlob ''a.pdf'']"
proof -
  have "extractFinancialFigures 2026 text_near ''a.pdf'' \<noteq> []"
    using near_figure_emitted by auto
  then show ?thesis
    by (simp add: analyzeDocument_def analyze_body_def validate_file_a extract_text_def
        blob_fallback_def upload_path_def services_upload_raises_def host0_def trim_text_near
        string_of_nat.simps)
       (simp add: file_a_def)
qed


theorem status_of_analysis_witness:
  "obtained_text host0 services_blank file_a = Some ''  ''
   \<and> trim ''  '' = []
   \<and> extractionStatus (fst (analyzeDocument host0 services_blank file_a)) = failed
   \<and> extractedFigures (fst (analyzeDocument host0 services_blank file_a)) = []
   \<and> errorMessage (fst (analyzeDocument host0 services_blank file_a))
       = Some (no_text_message file_a)"
proof -
  have o: "obtained_text host0 services_blank file_a = Some ''  ''"
    by (simp add: obtained_text_def url_strategy_def services_blank_def)
  with trim_blank
  have "\<exists>txt. obtained_text host0 services_blank file_a = Some txt \<and> trim txt = []"
    by blast
  with status_of_analysis [of host0 services_blank file_a]
  have "extractionStatus (fst (analyzeDocument host0 services_blank file_a)) = failed"
    and "extractedFigures (fst (analyzeDocument host0 services_blank file_a)) = []"
    by blast+
  with o trim_blank show ?thesis by (simp add: blank_run)
qed

text \<open>
  C4 as stated fails: here the upload raises and the status is \<open>success\<close>, and an
  empty file is \<open>failed\<close> although no collaborator was called.
\<close>

theorem failed_iff_raised_counterexample:
  "isl (storage_upload services_upload_raises file_a (upload_path host0 file_a))
   \<and> extractionStatus (fst (analyzeDocument host0 services_upload_raises file_a)) = success
   \<and> extractionStatus (fst (analyzeDocument host0 services_blank file_empty)) = failed
   \<and> snd (analyzeDocument host0 services_blank file_empty) = []"
  using upload_raises_run
  by (simp add: services_upload_raises_def)
     (simp add: analyzeDocument_def analyze_body_def validate_def file_empty_def)

theorem fallback_order_witness:
  "validate file_a = None
   \<and> isl (url_strategy host0 services_upload_raises file_a)
   \<and> snd (analyzeDocument host0 services_upload_raises file_a)
       = [Upload ''analysis/0-a.pdf'', ExtractFromBlob ''a.pdf'']
   \<and> extractionStatus (fst (analyzeDocument host0 services_upload_raises file_a)) = success
   \<and> validate file_empty
       = Some ''Invalid file: a.pdf - file is empty or corrupted''
   \<and> snd (analyzeDocument host0 services_upload_raises file_empty) = []
   \<and> extractionStatus (fst (analyzeDocument host0 services_upload_raises file_empty)) = failed
   \<and> snd (dash_extract_text services_upload_raises file_a 0 ''u'') = [ExtractFromUrl ''u'']
   \<and> fst (dash_extract_text services_upload_raises file_a 0 ''u'') = text_near"
proof -
  have u: "isl (url_strategy host0 services_upload_raises file_a)"
    by (simp add: url_strategy_def services_upload_raises_def)
  have c: "url_calls host0 services_upload_raises file_a = [Upload ''analysis/0-a.pdf'']"
    by (simp add: url_calls_def services_upload_raises_def upload_path_def host0_def
        string_of_nat.simps) (simp add: file_a_def)
  have e: "validate file_empty = Some ''Invalid file: a.pdf - file is empty or corrupted''"
    by (simp add: validate_def file_empty_def)
  have n: "file_name file_a = ''a.pdf''"
    by (simp add: file_a_def)
  have x: "extractFromUrl services_upload_raises ''u'' = Inr text_near"
    by (simp add: services_upload_raises_def)
  from fallback_order [of file_a host0 services_upload_raises 0 "''u''"] validate_file_a u c n x
  have 1: "snd (analyzeDocument host0 services_upload_raises file_a)
       = [Upload ''analysis/0-a.pdf'', ExtractFromBlob ''a.pdf'']"
    "snd (dash_extract_text services_upload_raises file_a 0 ''u'') = [ExtractFromUrl ''u'']"
    "fst (dash_extract_text services_upload_raises file_a 0 ''u'') = text_near"
    by simp_all
  from fallback_order [of file_empty host0 services_upload_raises 0 "''u''"] e
  have 2: "snd (analyzeDocument host0 services_upload_raises file_empty) = []"
    "extractionStatus (fst (analyzeDocument host0 services_upload_raises file_empty)) = failed"
    by simp_all
  from 1 2 u e validate_file_a upload_raises_run show ?thesis by simp
qed

text \<open>
  C5 as stated fails: here the extraction by URL returns blank text, the extraction from
  the file is not attempted, and the document is \<open>failed\<close> although no strategy raised.
\<close>

theorem blank_text_counterexample:
  "url_strategy host0 services_blank file_a = Inr ''  ''
   \<and> extractFromBlob services_blank file_a = Inr text_near
   \<and> snd (analyzeDocument host0 services_blank file_a)
       = [Upload ''analysis/0-a.pdf'', ExtractFromUrl ''u'']
   \<and> extractionStatus (fst (analyzeDocument host0 services_blank file_a)) = failed"
  by (simp add: blank_run) (simp add: url_strategy_def services_blank_def)

text \<open>The engine emits positive values only and drops every other match.\<close>

lemma engine_figure_positive:
  "figure_of_match text fname ys cat field m = Some f \<Longrightarrow> 0 < val f"
  by (auto simp: figure_of_match_def split: option.splits if_splits)

lemma engine_figures_positive:
  "f \<in> set (extractFinancialFigures cy text fname) \<Longrightarrow> 0 < val f"
  unfolding figures_from_matches using engine_figure_positive by blast

lemma engine_rejects_capture:
  "parseFloat (strip_commas (m_group m)) = None
     \<or> (\<exists>v. parseFloat (strip_commas (m_group m)) = Some v \<and> v \<le> 0)
   \<Longrightarrow> figure_of_match text fname ys cat field m = None"
  by (auto simp: figure_of_match_def)

text \<open>The dashboard emits values that are not negative, and may emit 0.\<close>

lemma digits_val_aux: "0 \<le> acc \<Longrightarrow> 0 \<le> foldl (\<lambda>n c. 10 * n + of_nat (digit_val c)) (acc :: number) ds"
  by (induction ds arbitrary: acc) simp_all

lemma digits_val_nonneg: "0 \<le> digits_val ds"
  by (simp add: digits_val_def digits_val_aux)

lemma parseFloat_nonneg: "parseFloat s = Some v \<Longrightarrow> 0 \<le> v"
  by (auto simp: parseFloat_def Let_def digits_val_nonneg split: if_splits)

lemma dash_figure_nonneg: "dash_figure text fname years cat p = Some f \<Longrightarrow> 0 \<le> df_value f"
  by (auto simp: dash_figure_def Let_def parseFloat_nonneg split: option.splits if_splits)

lemma dashboard_figures_nonneg:
  "f \<in> set (dash_extractFinancialFigures text fname) \<Longrightarrow> 0 \<le> df_value f"
  by (auto simp: dash_extractFinancialFigures_def Let_def map_filter_def dash_figure_nonneg)

text \<open>
  C3. The dashboard variant keeps a match whose capture parses to 0: for the text
  \<open>Revenue: 0\<close> it emits a figure of value 0, where the engine emits none.
\<close>

theorem dashboard_keeps_zero:
  "first_match (phrase CHR ''r'' ''evenue'' dash_amount) ''Revenue: 0''
     = Some \<lparr> m_index = 0, m_text = ''Revenue: 0'', m_group = ''0'' \<rparr>
   \<and> parseFloat (strip_commas ''0'') = Some 0
   \<and> dash_extractFinancialFigures ''Revenue: 0'' ''a.pdf''
     = [\<lparr> df_category = ''Revenue'', df_value = 0, df_year = ''2024'',
          df_documentName = ''a.pdf'', df_location = ''Found in document text'',
          df_confidence = 9 / 10 \<rparr>]
   \<and> extractFinancialFigures 2026 ''Revenue: 0'' ''a.pdf'' = []"
  by code_simp

section \<open>Properties of the comparator of the dashboard\<close>














definition file_b :: File where
  "file_b = \<lparr> file_name = ''b.pdf'', file_size = 2048, file_type = ''application/pdf'' \<rparr>"

text \<open>
  The upload returns the path as the public URL; extraction by URL returns one revenue
  line per document, 1,000,000 for \<open>a.pdf\<close> and 1,200,000 for any other.
\<close>

definition services_two :: services where
  "services_two =
     \<lparr> storage_upload = (\<lambda>file path. Inr path),
       extractFromUrl = (\<lambda>url. if url = ''analysis/a.pdf''
                                then Inr ''Revenue: $1,000,000 (2024)''
                                else Inr ''Revenue: $1,200,000 (2024)''),
       extractFromBlob = (\<lambda>file. Inl ''unreadable'') \<rparr>"

definition dash_figure_a :: DashFigure where
  "dash_figure_a = \<lparr> df_category = ''Revenue'', df_value = 1000000, df_year = ''2024'',
       df_documentName = ''a.pdf'', df_location = ''Found in document text'',
       df_confidence = 9 / 10 \<rparr>"

definition dash_figure_b :: DashFigure where
  "dash_figure_b = \<lparr> df_category = ''Revenue'', df_value = 1200000, df_year = ''2024'',
       df_documentName = ''b.pdf'', df_location = ''Found in document text'',
       df_confidence = 9 / 10 \<rparr>"

definition data_two :: "(string \<times> DashFigure list) list" where
  "data_two = [(''a.pdf'', [dash_figure_a]), (''b.pdf'', [dash_figure_b])]"


lemma process_one:
  "process_files services_two [file_b] 0 ([], [])
     = (Some [(''b.pdf'', [dash_figure_b])],
        [Upload ''analysis/b.pdf'', ExtractFromUrl ''analysis/b.pdf''])"
  by code_simp


definition discrepancy_two :: Discrepancy where
  "discrepancy_two =
     \<lparr> d_category = ''Revenue'', d_year = ''2024'',
       d_values = [\<lparr> dv_documentName = ''a.pdf'', dv_value = 1000000,
                      dv_location = ''Found in document text'' \<rparr>,
                   \<lparr> dv_documentName = ''b.pdf'', dv_value = 1200000,
                      dv_location = ''Found in document text'' \<rparr>],
       d_status = ''discrepancy'', d_variance = 200000,
       d_suggestion = ''Revenue (2024) values differ across documents. Range: # - # ''
                      @ ''(variance: #). Please verify which figure is correct.'' \<rparr>"



lemma report_two:
  "discrepancies (build_report host0 [file_a, file_b] data_two) = [discrepancy_two]
   \<and> matches (build_report host0 [file_a, file_b] data_two) = []"
  by code_simp












lemma analyzeDocuments_report:
  assumes "fst (analyzeDocuments h sv files) = Inr r"
  shows "\<exists>data. r = build_report h files data"
  using assms
  by (auto simp: analyzeDocuments_def split: prod.splits option.splits if_splits)

text \<open>
  C7 (amended). The score is \<open>matchCount / (matchCount + discrepancyCount) * 100\<close>
  and nothing guards the division: when both counts are 0 the score stored in the report
  is \<open>NaN\<close>. Only the view of the report shows that as 0.
\<close>

theorem consistency_score_unguarded:
  "matchCount (ar_summary (build_report h files data)) = length (matches (build_report h files data))
   \<and> rs_discrepancyCount (ar_summary (build_report h files data))
       = length (discrepancies (build_report h files data))
   \<and> (length (matches (build_report h files data))
         + length (discrepancies (build_report h files data)) = 0
       \<longrightarrow> consistencyScore (ar_summary (build_report h files data)) = NaN
           \<and> displayed_score (consistencyScore (ar_summary (build_report h files data))) = Num 0)
   \<and> (0 < length (matches (build_report h files data))
             + length (discrepancies (build_report h files data))
       \<longrightarrow> consistencyScore (ar_summary (build_report h files data))
           = Num (of_nat (length (matches (build_report h files data)))
                  / of_nat (length (matches (build_report h files data))
                            + length (discrepancies (build_report h files data))) * 100))"
  by (simp add: build_report_def Let_def js_div_def displayed_score_def)

definition data_a :: "(string \<times> DashFigure list) list" where
  "data_a = [(''a.pdf'', [dash_figure_a])]"

definition data_b :: "(string \<times> DashFigure list) list" where
  "data_b = [(''b.pdf'', [dash_figure_b])]"

lemma report_a:
  "discrepancies (build_report host0 [file_a] data_a) = []
   \<and> matches (build_report host0 [file_a] data_a) = []"
  by code_simp

lemma report_b:
  "discrepancies (build_report host0 [file_b] data_b) = []
   \<and> matches (build_report host0 [file_b] data_b) = []"
  by code_simp

lemma run_one:
  "fst (analyzeDocuments host0 services_two [file_b]) = Inr (build_report host0 [file_b] data_b)"
  unfolding analyzeDocuments_def process_one by (simp add: data_b_def)

theorem consistency_score_unguarded_witness:
  "consistencyScore (ar_summary (build_report host0 [file_a] data_a)) = NaN
   \<and> displayed_score (consistencyScore (ar_summary (build_report host0 [file_a] data_a))) = Num 0
   \<and> length (matches (build_report host0 [file_a] data_a))
       + length (discrepancies (build_report host0 [file_a] data_a)) = 0
   \<and> consistencyScore (ar_summary (build_report host0 [file_a, file_b] data_two)) = Num 0
   \<and> length (matches (build_report host0 [file_a, file_b] data_two))
       + length (discrepancies (build_report host0 [file_a, file_b] data_two)) = 1"
proof -
  from consistency_score_unguarded [of host0 "[file_a]" data_a] report_a
  have a: "consistencyScore (ar_summary (build_report host0 [file_a] data_a)) = NaN"
    "displayed_score (consistencyScore (ar_summary (build_report host0 [file_a] data_a))) = Num 0"
    by (simp_all add: displayed_score_def)
  from consistency_score_unguarded [of host0 "[file_a, file_b]" data_two] report_two
  have b: "consistencyScore (ar_summary (build_report host0 [file_a, file_b] data_two)) = Num 0"
    by simp
  from a b show ?thesis by (simp add: report_a report_two)
qed

text \<open>
  C7 as stated fails: the run on one document with one figure returns a report with no
  match and no discrepancy, whose score is \<open>NaN\<close>.
\<close>

theorem consistency_score_counterexample:
  "fst (analyzeDocuments host0 services_two [file_b]) = Inr (build_report host0 [file_b] data_b)
   \<and> matchCount (ar_summary (build_report host0 [file_b] data_b)) = 0
   \<and> rs_discrepancyCount (ar_summary (build_report host0 [file_b] data_b)) = 0
   \<and> consistencyScore (ar_summary (build_report host0 [file_b] data_b)) = NaN"
  using report_b run_one
  by (simp add: build_report_def Let_def js_div_def)

end
